theory Spec2Isabelle
  imports Main "HOL-Library.Word"
begin

unbundle bit_operations_syntax

section \<open>LoginScriptPlugin: the data model\<close>

text \<open>
  A shallow embedding of \<^verbatim>\<open>LoginScriptPlugin.c\<close>. The operating system and the
  authorization host are a record of answers (\<open>world\<close>): what \<^verbatim>\<open>lstat\<close>, \<^verbatim>\<open>fork\<close>,
  \<^verbatim>\<open>waitpid\<close>, \<^verbatim>\<open>fcntl\<close>, \<^verbatim>\<open>execl\<close> and the host callbacks return. The calls to
  \<^verbatim>\<open>asl_log\<close> only write to the system log and are left out; every other call
  of the source is a step of the model. Constants of the system headers carry the
  values of the macOS SDK the plugin is built against.
\<close>

type_synonym uid_t = "32 word"
type_synonym gid_t = "32 word"
type_synonym mode_t = "16 word"
type_synonym dev_t = "32 word"
type_synonym c_int = "32 word"
type_synonym OSStatus = int

text \<open>The fields of \<^verbatim>\<open>struct stat\<close> that \<^verbatim>\<open>VerifyScript\<close> reads.\<close>

record stat =
  st_dev :: dev_t
  st_mode :: mode_t
  st_uid :: uid_t
  st_gid :: gid_t

text \<open>\<^verbatim>\<open><sys/stat.h>\<close>: the file type mask and the permission bits (octal in the header).\<close>

definition S_IFMT :: mode_t where "S_IFMT = 0xF000"
definition S_IFLNK :: mode_t where "S_IFLNK = 0xA000"
definition S_IXUSR :: mode_t where "S_IXUSR = 0x40"
definition S_IWGRP :: mode_t where "S_IWGRP = 0x10"
definition S_IWOTH :: mode_t where "S_IWOTH = 0x2"

definition S_ISLNK :: "mode_t \<Rightarrow> bool" where
  "S_ISLNK m = (m AND S_IFMT = S_IFLNK)"

text \<open>\<^verbatim>\<open><sys/param.h>\<close>, \<^verbatim>\<open><sys/syslimits.h>\<close>, \<^verbatim>\<open><unistd.h>\<close>, \<^verbatim>\<open><sys/errno.h>\<close>, \<^verbatim>\<open><sysexits.h>\<close>.\<close>

definition MAXPATHLEN :: nat where "MAXPATHLEN = 1024"
definition OPEN_MAX :: int where "OPEN_MAX = 10240"
definition STDERR_FILENO :: int where "STDERR_FILENO = 2"
definition EBADF :: int where "EBADF = 9"
definition EX_OSERR :: c_int where "EX_OSERR = 71"
definition EX_NOPERM :: c_int where "EX_NOPERM = 77"

section \<open>The parent directory: \<^verbatim>\<open>dirname(3)\<close>\<close>

text \<open>
  \<^verbatim>\<open>while (endp > path && P(*endp)) endp--;\<close> with \<open>endp\<close> as an index into the path.
\<close>

fun scan_back :: "(char \<Rightarrow> bool) \<Rightarrow> string \<Rightarrow> nat \<Rightarrow> nat" where
  "scan_back P path 0 = 0"
| "scan_back P path (Suc e) = (if P (path ! Suc e) then scan_back P path e else Suc e)"

text \<open>
  The BSD \<^verbatim>\<open>dirname\<close> of the C library, which the source calls: the empty path gives
  \<^verbatim>\<open>"."\<close>; trailing slashes are dropped, then the last component, then the slashes
  before it; a path with no directory part gives \<^verbatim>\<open>"/"\<close> or \<^verbatim>\<open>"."\<close>. \<open>None\<close> is the
  \<^verbatim>\<open>NULL\<close> it returns (\<^verbatim>\<open>ENAMETOOLONG\<close>) when the result does not fit its buffer of
  \<^verbatim>\<open>MAXPATHLEN\<close> bytes.
\<close>

definition dirname :: "string \<Rightarrow> string option" where
  "dirname path =
     (if path = [] then Some ''.''
      else
        let e1 = scan_back (\<lambda>c. c = CHR ''/'') path (length path - 1);
            e2 = scan_back (\<lambda>c. c \<noteq> CHR ''/'') path e1
        in if e2 = 0 then Some (if path ! 0 = CHR ''/'' then ''/'' else ''.'')
           else
             let e3 = scan_back (\<lambda>c. c = CHR ''/'') path (e2 - 1);
                 len = e3 + 1
             in if len \<ge> MAXPATHLEN then None else Some (take len path))"

text \<open>The \<open>n\<close>-th ancestor of a path: \<open>dirname\<close> applied \<open>n\<close> times.\<close>

fun ancestor :: "nat \<Rightarrow> string \<Rightarrow> string option" where
  "ancestor 0 path = Some path"
| "ancestor (Suc n) path =
     (case dirname path of None \<Rightarrow> None | Some d \<Rightarrow> ancestor n d)"

section \<open>\<^verbatim>\<open>VerifyScript\<close>\<close>

text \<open>
  \<open>lstat\<close> is the table of what \<^verbatim>\<open>lstat(2)\<close> answers for each path: \<open>None\<close> when the
  call fails. The function calls itself on the parent until the path is \<^verbatim>\<open>"/"\<close>; on
  a relative path whose ancestors all pass it reaches \<^verbatim>\<open>"."\<close>, whose parent is
  \<^verbatim>\<open>"."\<close> again, and never returns: the value \<open>None\<close>. When \<^verbatim>\<open>dirname\<close> returns
  \<^verbatim>\<open>NULL\<close>, the recursive call fails at \<^verbatim>\<open>lstat(NULL)\<close> and returns false.
\<close>

partial_function (option) VerifyScript :: "(string \<Rightarrow> stat option) \<Rightarrow> string \<Rightarrow> bool option" where
  "VerifyScript lstat path =
     (case lstat ''/'' of
        None \<Rightarrow> Some False
      | Some rootInfo \<Rightarrow>
         (case lstat path of
            None \<Rightarrow> Some False
          | Some info \<Rightarrow>
              if st_dev info \<noteq> st_dev rootInfo then Some False
              else if S_ISLNK (st_mode info) then Some False
              else if st_uid info \<noteq> 0 then Some False
              else if st_mode info AND S_IWOTH \<noteq> 0 then Some False
              else if st_mode info AND S_IWGRP \<noteq> 0 \<and> st_gid info \<noteq> 0 then Some False
              else if \<not> (st_mode info AND S_IXUSR \<noteq> 0) then Some False
              else if path = ''/'' then Some True
              else (case dirname path of
                      None \<Rightarrow> Some False
                    | Some d \<Rightarrow> VerifyScript lstat d)))"

declare VerifyScript.simps [code]

text \<open>
  What the specification asks of one node of the chain: it can be inspected, is no
  symbolic link, is owned by uid 0, is not world-writable, and is group-writable only
  when its group is gid 0.
\<close>

definition node_trusted :: "(string \<Rightarrow> stat option) \<Rightarrow> string \<Rightarrow> bool" where
  "node_trusted lstat p =
     (case lstat p of
        None \<Rightarrow> False
      | Some info \<Rightarrow>
          \<not> S_ISLNK (st_mode info) \<and> st_uid info = 0 \<and> st_mode info AND S_IWOTH = 0 \<and>
          (st_mode info AND S_IWGRP = 0 \<or> st_gid info = 0))"

text \<open>The owner-execute bit of a node that can be inspected.\<close>

definition owner_executable :: "(string \<Rightarrow> stat option) \<Rightarrow> string \<Rightarrow> bool" where
  "owner_executable lstat p =
     (case lstat p of None \<Rightarrow> False | Some info \<Rightarrow> st_mode info AND S_IXUSR \<noteq> 0)"

section \<open>Wait statuses: \<^verbatim>\<open><sys/wait.h>\<close>\<close>

text \<open>
  How a process ends: it exits with a status (the kernel keeps the low eight bits of
  the argument of \<^verbatim>\<open>exit\<close>), or a signal kills it (the signal number, and whether
  it dumped core).
\<close>

datatype proc_end = Exited "8 word" | Signaled "7 word" bool

text \<open>The status word \<^verbatim>\<open>waitpid\<close> stores for a terminated child.\<close>

definition wstatus :: "proc_end \<Rightarrow> c_int" where
  "wstatus t =
     (case t of
        Exited ret \<Rightarrow> push_bit 8 (ucast ret)
      | Signaled sig core \<Rightarrow> ucast sig OR (if core then 0x80 else 0))"

definition WSTOPPED :: c_int where "WSTOPPED = 0x7F"

definition WSTATUS :: "c_int \<Rightarrow> c_int" where
  "WSTATUS x = x AND 0x7F"

definition WIFSIGNALED :: "c_int \<Rightarrow> bool" where
  "WIFSIGNALED x = (WSTATUS x \<noteq> WSTOPPED \<and> WSTATUS x \<noteq> 0)"

definition WEXITSTATUS :: "c_int \<Rightarrow> c_int" where
  "WEXITSTATUS x = signed_drop_bit 8 x AND 0xFF"

section \<open>The world outside the plugin\<close>

datatype AuthorizationResult =
  kAuthorizationResultAllow
| kAuthorizationResultDeny
| kAuthorizationResultUndefined
| kAuthorizationResultUserCanceled

text \<open>The value of the enumeration, as \<^verbatim>\<open>MechanismInvoke\<close> returns it.\<close>

fun AuthorizationResult_value :: "AuthorizationResult \<Rightarrow> OSStatus" where
  "AuthorizationResult_value kAuthorizationResultAllow = 0"
| "AuthorizationResult_value kAuthorizationResultDeny = 1"
| "AuthorizationResult_value kAuthorizationResultUndefined = 2"
| "AuthorizationResult_value kAuthorizationResultUserCanceled = 3"

definition errAuthorizationSuccess :: OSStatus where "errAuthorizationSuccess = 0"
definition errAuthorizationInternal :: OSStatus where "errAuthorizationInternal = - 60008"

text \<open>
  \<^verbatim>\<open>fork\<close> as the parent sees it: it fails with an errno, or returns the child's pid.
  \<^verbatim>\<open>waitpid\<close> returns the child's pid and stores its status, or fails with an errno
  and stores nothing. \<^verbatim>\<open>fcntl\<close> and \<^verbatim>\<open>execl\<close> succeed or fail with an errno.
\<close>

datatype fork_result = ForkFailed int | ForkParent int
datatype wait_result = WaitFailed int | WaitReturned
datatype fcntl_result = FcntlFailed int | FcntlOk
datatype execl_result = ExeclFailed int | ExeclReplaced

text \<open>
  \<open>sys_childStatus\<close> is the content of the local variable \<^verbatim>\<open>childStatus\<close> of
  \<^verbatim>\<open>ExecuteScript\<close> before \<^verbatim>\<open>waitpid\<close> is called: the source declares it without
  an initial value, so it holds what the stack held. \<open>sys_script\<close> is how the
  program started by \<^verbatim>\<open>execl\<close> ends, given its path and arguments; \<open>None\<close> when
  it never ends. \<open>host_GetContextValue\<close> answers a key with the status the callback
  returns and the \<^verbatim>\<open>uid_t\<close> read at \<^verbatim>\<open>value->data\<close>. The status that the
  callback \<^verbatim>\<open>SetResult\<close> returns is only logged, so the world does not hold it.
\<close>

record world =
  sys_lstat :: "string \<Rightarrow> stat option"
  sys_fork :: fork_result
  sys_waitpid :: wait_result
  sys_childStatus :: c_int
  sys_sysconf_OPEN_MAX :: int
  sys_fcntl :: "int \<Rightarrow> fcntl_result"
  sys_execl :: "string \<Rightarrow> string list \<Rightarrow> execl_result"
  sys_script :: "string \<Rightarrow> string list \<Rightarrow> proc_end option"
  host_GetContextValue :: "string \<Rightarrow> OSStatus \<times> uid_t"

section \<open>\<^verbatim>\<open>ExecuteScript\<close>: the child\<close>

text \<open>\<^verbatim>\<open>printf("%d")\<close>: a decimal numeral, with a minus sign when negative.\<close>

fun decimal :: "nat \<Rightarrow> string" where
  "decimal n =
     (if n < 10 then [''0123456789'' ! n]
      else decimal (n div 10) @ [''0123456789'' ! (n mod 10)])"

declare decimal.simps [simp del]

definition printf_d :: "int \<Rightarrow> string" where
  "printf_d i = (if i < 0 then CHR ''-'' # decimal (nat (- i)) else decimal (nat i))"

text \<open>
  \<^verbatim>\<open>snprintf(buf, n, "%d", x)\<close> with a 32-bit argument: the conversion reads the
  argument as an \<^verbatim>\<open>int\<close>, and at most \<open>n - 1\<close> characters are stored.
\<close>

definition snprintf_d :: "nat \<Rightarrow> 32 word \<Rightarrow> string" where
  "snprintf_d n x = take (n - 1) (printf_d (sint x))"

text \<open>
  The loop over the descriptors above \<^verbatim>\<open>STDERR_FILENO\<close>: \<open>False\<close> when it ends in
  \<^verbatim>\<open>exit(EX_NOPERM)\<close> (an \<^verbatim>\<open>fcntl\<close> failed with an errno other than \<^verbatim>\<open>EBADF\<close>),
  \<open>True\<close> when it runs to \<open>maxfd\<close>.
\<close>

function mark_fds :: "(int \<Rightarrow> fcntl_result) \<Rightarrow> int \<Rightarrow> int \<Rightarrow> bool" where
  "mark_fds fcntl fd maxfd =
     (if fd < maxfd then
        (case fcntl fd of
           FcntlFailed errno \<Rightarrow> if errno \<noteq> EBADF then False else mark_fds fcntl (fd + 1) maxfd
         | FcntlOk \<Rightarrow> mark_fds fcntl (fd + 1) maxfd)
      else True)"
  by pat_completeness auto
termination
  by (relation "measure (\<lambda>(fcntl, fd, maxfd). nat (maxfd - fd))") auto

declare mark_fds.simps [simp del]

datatype child_call = Setgid gid_t | Setuid uid_t | Execl string "string list"

datatype child_end = ChildExit c_int | ChildReplaced string "string list"

text \<open>
  The branch \<^verbatim>\<open>childPid == 0\<close>: the calls the child makes (the results of
  \<^verbatim>\<open>setgid\<close> and \<^verbatim>\<open>setuid\<close> are not looked at) and how the branch ends: in
  \<^verbatim>\<open>exit\<close>, or with the process image replaced.
\<close>

definition child_branch :: "world \<Rightarrow> string \<Rightarrow> uid_t \<Rightarrow> gid_t \<Rightarrow> child_call list \<times> child_end" where
  "child_branch w path uid gid =
     (let creds = (if uid \<noteq> 0 \<or> gid \<noteq> 0 then [Setgid gid, Setuid uid] else []);
          maxfd0 = sys_sysconf_OPEN_MAX w;
          maxfd = (if maxfd0 < 0 then OPEN_MAX else maxfd0)
      in if \<not> mark_fds (sys_fcntl w) (STDERR_FILENO + 1) maxfd then (creds, ChildExit EX_NOPERM)
         else
           let uidStr = snprintf_d 21 uid;
               argv = [path, uidStr]
           in case sys_execl w path argv of
                ExeclFailed errno \<Rightarrow> (creds @ [Execl path argv], ChildExit EX_OSERR)
              | ExeclReplaced \<Rightarrow> (creds @ [Execl path argv], ChildReplaced path argv))"

text \<open>How the child process ends, \<open>None\<close> when it never does.\<close>

definition child_termination :: "world \<Rightarrow> string \<Rightarrow> uid_t \<Rightarrow> gid_t \<Rightarrow> proc_end option" where
  "child_termination w path uid gid =
     (case snd (child_branch w path uid gid) of
        ChildExit status \<Rightarrow> Some (Exited (ucast status))
      | ChildReplaced prog argv \<Rightarrow> sys_script w prog argv)"

section \<open>\<^verbatim>\<open>ExecuteScript\<close>: the parent\<close>

text \<open>
  The calls of the parent process that the model records, in the order made: the
  process calls, the host callbacks and the building of the script path.
\<close>

datatype call =
  Fork
| Waitpid
| GetContextValue string
| BuildScriptPath string
| SetResult AuthorizationResult

text \<open>
  The content of \<^verbatim>\<open>childStatus\<close> after \<^verbatim>\<open>waitpid\<close>: the child's status when the
  call returned its pid (\<open>None\<close> when the child never ends and the call never
  returns), the variable's old content when the call failed.
\<close>

definition waited_status :: "world \<Rightarrow> string \<Rightarrow> uid_t \<Rightarrow> gid_t \<Rightarrow> c_int option" where
  "waited_status w path uid gid =
     (case sys_waitpid w of
        WaitFailed errno \<Rightarrow> Some (sys_childStatus w)
      | WaitReturned \<Rightarrow> map_option wstatus (child_termination w path uid gid))"

text \<open>
  The result and the calls made. \<open>None\<close>: the function does not return
  (\<^verbatim>\<open>VerifyScript\<close> recurses for ever, or the child never ends).
\<close>

definition ExecuteScript :: "world \<Rightarrow> string \<Rightarrow> uid_t \<Rightarrow> gid_t \<Rightarrow> (AuthorizationResult \<times> call list) option" where
  "ExecuteScript w path uid gid =
     (case VerifyScript (sys_lstat w) path of
        None \<Rightarrow> None
      | Some verified \<Rightarrow>
          if \<not> verified then Some (kAuthorizationResultAllow, [])
          else
            (case sys_fork w of
               ForkFailed errno \<Rightarrow> Some (kAuthorizationResultAllow, [Fork])
             | ForkParent childPid \<Rightarrow>
                 (case waited_status w path uid gid of
                    None \<Rightarrow> None
                  | Some childStatus \<Rightarrow>
                      if WIFSIGNALED childStatus then Some (kAuthorizationResultAllow, [Fork, Waitpid])
                      else if WEXITSTATUS childStatus = EX_NOPERM
                        then Some (kAuthorizationResultDeny, [Fork, Waitpid])
                        else Some (kAuthorizationResultAllow, [Fork, Waitpid]))))"

section \<open>The mechanism\<close>

datatype userContext = kRunAsRoot | kRunAsUser

datatype scriptPhase = kRunBeforeHomedirMount | kRunAfterHomedirMount

text \<open>The four-character constants \<^verbatim>\<open>'MLSP'\<close> and \<^verbatim>\<open>'PLSP'\<close>.\<close>

definition kMechanismMagic :: "32 word" where "kMechanismMagic = 0x4D4C5350"
definition kPluginMagic :: "32 word" where "kPluginMagic = 0x504C5350"

text \<open>
  A reference to an opaque object of the host (the engine, the log client) is a
  number, 0 for \<^verbatim>\<open>NULL\<close>. A pointer to a record is an option, \<open>None\<close> for \<^verbatim>\<open>NULL\<close>.
\<close>

type_synonym ref = nat

record AuthorizationCallbacks =
  version :: nat

record PluginRecord =
  plugin_fMagic :: "32 word"
  fCallbacks :: "AuthorizationCallbacks option"
  fLogClient :: ref

record MechanismRecord =
  fMagic :: "32 word"
  fEngine :: ref
  fPlugin :: "PluginRecord option"
  fContext :: userContext
  fPhase :: scriptPhase

definition MechanismValid :: "MechanismRecord option \<Rightarrow> bool" where
  "MechanismValid mechanism =
     (case mechanism of
        None \<Rightarrow> False
      | Some m \<Rightarrow> fMagic m = kMechanismMagic \<and> fEngine m \<noteq> 0 \<and> fPlugin m \<noteq> None)"

text \<open>
  The constant \<^verbatim>\<open>kAuthorizationCallbacksVersion\<close> of the Security framework's header
  is a parameter.
\<close>

definition PluginValid :: "nat \<Rightarrow> PluginRecord option \<Rightarrow> bool" where
  "PluginValid kAuthorizationCallbacksVersion plugin =
     (case plugin of
        None \<Rightarrow> False
      | Some p \<Rightarrow>
          plugin_fMagic p = kPluginMagic \<and>
          (case fCallbacks p of
             None \<Rightarrow> False
           | Some callbacks \<Rightarrow> version callbacks \<ge> kAuthorizationCallbacksVersion) \<and>
          fLogClient p \<noteq> 0)"

text \<open>How a call ends when it does not return: a \<^verbatim>\<open>NULL\<close> pointer is read, or an \<^verbatim>\<open>assert\<close> fails.\<close>

datatype fault = NullDereference | AssertionFailed

text \<open>
  \<open>malloc_succeeds\<close> says whether \<^verbatim>\<open>malloc\<close> returns a block. \<open>outMechanism\<close> is
  \<open>None\<close> for a \<^verbatim>\<open>NULL\<close> pointer, else the content of the place it points to; the
  function returns its status and the new content of that place.
\<close>

definition MechanismCreate ::
  "nat \<Rightarrow> bool \<Rightarrow> PluginRecord option \<Rightarrow> ref \<Rightarrow> string option \<Rightarrow> MechanismRecord option option
   \<Rightarrow> fault + (OSStatus \<times> MechanismRecord option)" where
  "MechanismCreate kAuthorizationCallbacksVersion malloc_succeeds inPlugin inEngine mechanismId outMechanism =
     (case inPlugin of
        None \<Rightarrow> Inl NullDereference
      | Some plugin \<Rightarrow>
          if \<not> PluginValid kAuthorizationCallbacksVersion inPlugin then Inl AssertionFailed
          else if inEngine = 0 then Inl AssertionFailed
          else
            (case mechanismId of
               None \<Rightarrow> Inl AssertionFailed
             | Some mid \<Rightarrow>
                 (case outMechanism of
                    None \<Rightarrow> Inl AssertionFailed
                  | Some old \<Rightarrow>
                      (case (if mid = ''premount-root'' then Some (kRunAsRoot, kRunBeforeHomedirMount)
                             else if mid = ''premount-user'' then Some (kRunAsUser, kRunBeforeHomedirMount)
                             else if mid = ''postmount-root'' then Some (kRunAsRoot, kRunAfterHomedirMount)
                             else if mid = ''postmount-user'' then Some (kRunAsUser, kRunAfterHomedirMount)
                             else None) of
                         None \<Rightarrow> Inr (errAuthorizationInternal, None)
                       | Some (context, phase) \<Rightarrow>
                           if \<not> malloc_succeeds then Inr (errAuthorizationInternal, old)
                           else
                             Inr (errAuthorizationSuccess,
                                  Some \<lparr>fMagic = kMechanismMagic, fEngine = inEngine,
                                        fPlugin = inPlugin, fContext = context, fPhase = phase\<rparr>)))))"

definition kLoginScriptDir :: string where
  "kLoginScriptDir = ''/Library/Application Support/LoginScriptPlugin''"

definition NOBODY :: int where "NOBODY = - 2"

text \<open>\<^verbatim>\<open>snprintf(buf, n, "%s/%s-%s", dir, phase, context)\<close>.\<close>

definition snprintf_path :: "nat \<Rightarrow> string \<Rightarrow> string \<Rightarrow> string \<Rightarrow> string" where
  "snprintf_path n dir phase context = take (n - 1) (dir @ ''/'' @ phase @ ''-'' @ context)"

text \<open>
  The calls made, and how the function ends: with a fault, or returning \<^verbatim>\<open>result\<close>
  as its status. \<open>None\<close> when it does not return because \<^verbatim>\<open>ExecuteScript\<close> does not.
  The integer \<^verbatim>\<open>NOBODY\<close> is converted to \<^verbatim>\<open>uid_t\<close> where it is assigned and compared.
\<close>

definition MechanismInvoke :: "world \<Rightarrow> MechanismRecord option \<Rightarrow> (call list \<times> (fault + OSStatus)) option" where
  "MechanismInvoke w inMechanism =
     (case inMechanism of
        None \<Rightarrow> Some ([], Inl NullDereference)
      | Some mechanism \<Rightarrow>
          (case fPlugin mechanism of
             None \<Rightarrow> Some ([], Inl NullDereference)
           | Some plugin \<Rightarrow>
               if \<not> MechanismValid inMechanism then Some ([], Inl AssertionFailed)
               else
                 (case (if fContext mechanism = kRunAsRoot then Inr (0, 0, [])
                        else
                          (case fCallbacks plugin of
                             None \<Rightarrow> Inl NullDereference
                           | Some callbacks \<Rightarrow>
                               let uid = (if fst (host_GetContextValue w ''uid'') \<noteq> errAuthorizationSuccess
                                          then word_of_int NOBODY
                                          else snd (host_GetContextValue w ''uid''));
                                   gid = (if fst (host_GetContextValue w ''gid'') \<noteq> errAuthorizationSuccess
                                          then word_of_int NOBODY
                                          else snd (host_GetContextValue w ''gid''))
                               in Inr (uid, gid, [GetContextValue ''uid'', GetContextValue ''gid'']))) of
                    Inl f \<Rightarrow> Some ([], Inl f)
                  | Inr (uid, gid, lookups) \<Rightarrow>
                      (case (if uid = word_of_int NOBODY \<or> gid = word_of_int NOBODY
                             then Some (kAuthorizationResultAllow, [])
                             else
                               let scriptPath =
                                     snprintf_path MAXPATHLEN kLoginScriptDir
                                       (if fPhase mechanism = kRunBeforeHomedirMount
                                        then ''premount'' else ''postmount'')
                                       (if fContext mechanism = kRunAsRoot then ''root'' else ''user'')
                               in map_option (\<lambda>(r, calls). (r, BuildScriptPath scriptPath # calls))
                                    (ExecuteScript w scriptPath uid gid)) of
                         None \<Rightarrow> None
                       | Some (result, calls) \<Rightarrow>
                           (case fCallbacks plugin of
                              None \<Rightarrow> Some (lookups @ calls, Inl NullDereference)
                            | Some callbacks \<Rightarrow>
                                Some (lookups @ calls @ [SetResult result],
                                      Inr (AuthorizationResult_value result)))))))"

section \<open>Concrete worlds\<close>

text \<open>
  A boot volume with a root-owned directory \<^verbatim>\<open>/opt\<close> (mode 0755) and a root-owned
  script \<^verbatim>\<open>/opt/hook\<close> (a regular file, mode 0755).
\<close>

definition dir_0755 :: stat where
  "dir_0755 = \<lparr>st_dev = 1, st_mode = 0x41ED, st_uid = 0, st_gid = 0\<rparr>"

definition file_0755 :: stat where
  "file_0755 = \<lparr>st_dev = 1, st_mode = 0x81ED, st_uid = 0, st_gid = 0\<rparr>"

definition example_lstat :: "string \<Rightarrow> stat option" where
  "example_lstat = map_of [(''/'', dir_0755), (''/opt'', dir_0755), (''/opt/hook'', file_0755)]"

text \<open>The installed plugin: the script of the user context after the home directory is mounted.\<close>

definition install_lstat :: "string \<Rightarrow> stat option" where
  "install_lstat =
     map_of [(''/'', dir_0755), (''/Library'', dir_0755),
       (''/Library/Application Support'', dir_0755),
       (''/Library/Application Support/LoginScriptPlugin'', dir_0755),
       (''/Library/Application Support/LoginScriptPlugin/postmount-user'', file_0755)]"

text \<open>
  A world where every call succeeds and the script exits with status 77; the login
  is that of uid 501, gid 20.
\<close>

definition example_world :: world where
  "example_world =
     \<lparr>sys_lstat = example_lstat, sys_fork = ForkParent 100, sys_waitpid = WaitReturned,
      sys_childStatus = 0, sys_sysconf_OPEN_MAX = 5, sys_fcntl = (\<lambda>fd. FcntlOk),
      sys_execl = (\<lambda>path argv. ExeclReplaced), sys_script = (\<lambda>path argv. Some (Exited 77)),
      host_GetContextValue = (\<lambda>key. (errAuthorizationSuccess, if key = ''uid'' then 501 else 20))\<rparr>"

definition example_plugin :: PluginRecord where
  "example_plugin = \<lparr>plugin_fMagic = kPluginMagic, fCallbacks = Some \<lparr>version = 1\<rparr>, fLogClient = 7\<rparr>"

definition example_mechanism :: MechanismRecord where
  "example_mechanism =
     \<lparr>fMagic = kMechanismMagic, fEngine = 3, fPlugin = Some example_plugin,
      fContext = kRunAsUser, fPhase = kRunAfterHomedirMount\<rparr>"

section \<open>Facts about \<^verbatim>\<open>dirname\<close> and \<^verbatim>\<open>VerifyScript\<close>\<close>

lemmas stat_bits = S_ISLNK_def S_IFMT_def S_IFLNK_def S_IWOTH_def S_IWGRP_def S_IXUSR_def

lemmas example_files = example_lstat_def dir_0755_def file_0755_def

lemma dirname_root: "dirname ''/'' = Some ''/''"
  by (simp add: dirname_def)

lemma ancestor_root: "ancestor n ''/'' = Some ''/''"
  by (induction n) (simp_all add: dirname_root)

lemma ancestor_hook: "ancestor (Suc 0) ''/opt/hook'' = Some ''/opt''"
  by (simp add: dirname_def MAXPATHLEN_def)

text \<open>A node that fails one of the checks makes the call on that node return false.\<close>

lemma VerifyScript_untrusted_node:
  "\<not> node_trusted lstat path \<Longrightarrow> VerifyScript lstat path = Some False"
  by (subst VerifyScript.simps) (auto simp: node_trusted_def split: option.splits)

lemma VerifyScript_not_executable:
  "\<not> owner_executable lstat path \<Longrightarrow> VerifyScript lstat path = Some False"
  by (subst VerifyScript.simps) (auto simp: owner_executable_def split: option.splits)

text \<open>One step of the recursion: false at once, the root, or the result for the parent.\<close>

lemma VerifyScript_step:
  "VerifyScript lstat path = Some False \<or> path = ''/'' \<or>
   (\<exists>d. dirname path = Some d \<and> VerifyScript lstat path = VerifyScript lstat d)"
  by (subst (1 2) VerifyScript.simps) (auto split: option.splits)

text \<open>
  A check \<open>Q\<close> that every call makes on its own node is made on every ancestor:
  induction on the distance to the ancestor.
\<close>

lemma VerifyScript_ancestor_fails:
  assumes node: "\<And>q. \<not> Q q \<Longrightarrow> VerifyScript lstat q = Some False"
  shows "ancestor n path = Some p \<Longrightarrow> \<not> Q p \<Longrightarrow> VerifyScript lstat path = Some False"
proof (induction n arbitrary: path)
  case 0
  then show ?case using node by simp
next
  case (Suc n)
  then obtain d where d: "dirname path = Some d" "ancestor n d = Some p"
    by (auto split: option.splits)
  consider "VerifyScript lstat path = Some False" | "path = ''/''"
    | "VerifyScript lstat path = VerifyScript lstat d"
    using VerifyScript_step [of lstat path] d(1) by auto
  then show ?case
  proof cases
    case 1
    then show ?thesis .
  next
    case 2
    with d(1) have "d = ''/''" by (simp add: dirname_root)
    with d(2) have "p = ''/''" by (simp add: ancestor_root)
    with 2 Suc.prems(2) node show ?thesis by simp
  next
    case 3
    with Suc.IH [OF d(2) Suc.prems(2)] show ?thesis by simp
  qed
qed

text \<open>A call that returns true has walked up to the root.\<close>

lemma VerifyScript_reaches_root:
  "VerifyScript lstat path = Some b \<Longrightarrow> b \<Longrightarrow> \<exists>n. ancestor n path = Some ''/''"
proof (induction rule: VerifyScript.raw_induct [rotated 1, consumes 1])
  case (1 VS lstat path b)
  show ?case
  proof (cases "path = ''/''")
    case True
    then show ?thesis by (intro exI [of _ 0]) simp
  next
    case False
    with 1(2,3) obtain d where d: "dirname path = Some d" "VS lstat d = Some True"
      by (auto split: option.splits if_splits)
    from 1(1) [OF d(2)] obtain n where "ancestor n d = Some ''/''" by auto
    with d(1) have "ancestor (Suc n) path = Some ''/''" by simp
    then show ?thesis by blast
  qed
qed

lemma example_verified: "VerifyScript example_lstat ''/opt/hook'' = Some True"
  by (simp add: VerifyScript.simps example_files dirname_def stat_bits MAXPATHLEN_def)

section \<open>The trust chain\<close>

text \<open>
  C1. \<^verbatim>\<open>VerifyScript(path)\<close> returns true only if every node from the path up to and
  including the root \<^verbatim>\<open>"/"\<close> (which the chain of parents reaches) is no symbolic
  link, is owned by uid 0, is not world-writable and is group-writable only under
  gid 0; and whenever some node of the chain breaks one of these conditions, the
  call returns false.
\<close>

theorem VerifyScript_trust_chain:
  "(VerifyScript lstat path = Some True \<longrightarrow>
      (\<exists>n. ancestor n path = Some ''/'') \<and>
      (\<forall>n p. ancestor n path = Some p \<longrightarrow> node_trusted lstat p)) \<and>
   (\<forall>n p. ancestor n path = Some p \<and> \<not> node_trusted lstat p \<longrightarrow>
      VerifyScript lstat path = Some False)"
proof -
  have flip: "VerifyScript lstat path = Some False"
    if "ancestor n path = Some p" "\<not> node_trusted lstat p" for n p
    using VerifyScript_ancestor_fails [of "node_trusted lstat" lstat n path p]
      VerifyScript_untrusted_node that by blast
  have "node_trusted lstat p"
    if "VerifyScript lstat path = Some True" "ancestor n path = Some p" for n p
    using flip [of n p] that by auto
  moreover have "\<exists>n. ancestor n path = Some ''/''" if "VerifyScript lstat path = Some True"
    using VerifyScript_reaches_root that by blast
  ultimately show ?thesis using flip by blast
qed

text \<open>
  The script \<^verbatim>\<open>/opt/hook\<close> of the example volume is verified, so its parent is
  trusted; with \<^verbatim>\<open>/opt\<close> made world-writable the call returns false.
\<close>

theorem VerifyScript_trust_chain_witness:
  "VerifyScript example_lstat ''/opt/hook'' = Some True \<and>
   node_trusted example_lstat ''/opt'' \<and>
   VerifyScript (example_lstat(''/opt'' \<mapsto> dir_0755\<lparr>st_mode := st_mode dir_0755 OR S_IWOTH\<rparr>))
     ''/opt/hook'' = Some False"
proof -
  let ?bad = "example_lstat(''/opt'' \<mapsto> dir_0755\<lparr>st_mode := st_mode dir_0755 OR S_IWOTH\<rparr>)"
  have "node_trusted example_lstat ''/opt''"
    using VerifyScript_trust_chain [of example_lstat "''/opt/hook''"]
      example_verified ancestor_hook by blast
  moreover have "\<not> node_trusted ?bad ''/opt''"
    by (simp add: node_trusted_def example_files stat_bits)
  then have "VerifyScript ?bad ''/opt/hook'' = Some False"
    using VerifyScript_trust_chain [of ?bad "''/opt/hook''"] ancestor_hook by blast
  ultimately show ?thesis using example_verified by simp
qed

text \<open>
  C2, as the specification states it, fails: \<^verbatim>\<open>/opt\<close> with mode 0655 differs from
  the verified example in the owner-execute bit of an ancestor directory alone, and
  the call returns false.
\<close>

theorem VerifyScript_ancestor_executable_counterexample:
  "VerifyScript example_lstat ''/opt/hook'' = Some True \<and>
   VerifyScript (example_lstat(''/opt'' \<mapsto> dir_0755\<lparr>st_mode := st_mode dir_0755 AND NOT S_IXUSR\<rparr>))
     ''/opt/hook'' = Some False"
  by (simp add: VerifyScript.simps example_files dirname_def stat_bits MAXPATHLEN_def)

text \<open>
  C2, amended: the owner-execute bit is required of every node of the chain, the
  leaf and each ancestor directory up to the root: a node without it makes
  \<^verbatim>\<open>VerifyScript\<close> return false.
\<close>

theorem VerifyScript_executable_every_node:
  "ancestor n path = Some p \<Longrightarrow> \<not> owner_executable lstat p \<Longrightarrow>
   VerifyScript lstat path = Some False"
  using VerifyScript_ancestor_fails [of "owner_executable lstat" lstat n path p]
    VerifyScript_not_executable by blast

theorem VerifyScript_executable_every_node_witness:
  "ancestor (Suc 0) ''/opt/hook'' = Some ''/opt'' \<and>
   \<not> owner_executable (example_lstat(''/opt'' \<mapsto> dir_0755\<lparr>st_mode := 0x41AD\<rparr>)) ''/opt'' \<and>
   VerifyScript (example_lstat(''/opt'' \<mapsto> dir_0755\<lparr>st_mode := 0x41AD\<rparr>)) ''/opt/hook'' = Some False"
proof -
  let ?bad = "example_lstat(''/opt'' \<mapsto> dir_0755\<lparr>st_mode := 0x41AD\<rparr>)"
  have x: "\<not> owner_executable ?bad ''/opt''"
    by (simp add: owner_executable_def example_files stat_bits)
  from VerifyScript_executable_every_node [OF ancestor_hook x] ancestor_hook x
  show ?thesis by simp
qed


section \<open>Facts about wait statuses and \<^verbatim>\<open>printf\<close>\<close>

lemma mask_255: "(255 :: 32 word) = mask 8"
  by (simp add: mask_eq_exp_minus_1)

lemma mask_127: "(127 :: 32 word) = mask 7"
  by (simp add: mask_eq_exp_minus_1)

lemma bit_128: "bit (128 :: int) n \<longleftrightarrow> n = 7"
  using bit_exp_iff [of 7 n, where ?'a = int] by auto

lemma WIFSIGNALED_Exited: "\<not> WIFSIGNALED (wstatus (Exited ret))"
proof -
  have "(push_bit 8 (ucast ret) :: 32 word) AND 127 = 0"
    unfolding mask_127 by (rule bit_word_eqI) (auto simp add: bit_simps)
  then show ?thesis by (simp add: WIFSIGNALED_def WSTATUS_def wstatus_def)
qed

lemma WEXITSTATUS_Exited: "WEXITSTATUS (wstatus (Exited ret)) = ucast ret"
proof -
  have "signed_drop_bit 8 (push_bit 8 (ucast ret) :: 32 word) AND 255 = ucast ret"
    unfolding mask_255
    by (rule bit_word_eqI) (auto simp add: bit_simps dest: bit_imp_le_length)
  then show ?thesis by (simp add: WEXITSTATUS_def wstatus_def)
qed

lemma WEXITSTATUS_Signaled: "WEXITSTATUS (wstatus (Signaled sig core)) = 0"
proof -
  have "signed_drop_bit 8 (ucast sig :: 32 word) AND 255 = 0"
    unfolding mask_255
    by (rule bit_word_eqI) (auto simp add: bit_simps dest: bit_imp_le_length)
  moreover have "signed_drop_bit 8 ((ucast sig :: 32 word) OR 128) AND 255 = 0"
    unfolding mask_255
    by (rule bit_word_eqI) (auto simp add: bit_simps bit_128 dest: bit_imp_le_length)
  ultimately show ?thesis by (simp add: WEXITSTATUS_def wstatus_def)
qed

lemma ucast_eq_77: "(ucast (ret :: 8 word) :: 32 word) = 77 \<longleftrightarrow> ret = 77"
proof
  assume "(ucast ret :: 32 word) = 77"
  then have "(ucast (ucast ret :: 32 word) :: 8 word) = ucast (77 :: 32 word)" by simp
  moreover have "(ucast (ucast ret :: 32 word) :: 8 word) = ret"
    by (rule ucast_up_ucast_id) (simp add: is_up)
  ultimately show "ret = 77" by simp
next
  assume "ret = 77"
  then show "(ucast ret :: 32 word) = 77" by simp
qed

text \<open>The decision the parent takes from the status of a child that ended.\<close>

lemma decision_of_wstatus:
  "(\<not> WIFSIGNALED (wstatus t) \<and> WEXITSTATUS (wstatus t) = EX_NOPERM) \<longleftrightarrow> t = Exited 77"
proof (cases t)
  case (Exited ret)
  then show ?thesis
    by (simp add: WIFSIGNALED_Exited WEXITSTATUS_Exited EX_NOPERM_def ucast_eq_77)
next
  case (Signaled sig core)
  then show ?thesis by (simp add: WEXITSTATUS_Signaled EX_NOPERM_def)
qed

lemma length_decimal: "n < 10 ^ k \<Longrightarrow> 0 < k \<Longrightarrow> length (decimal n) \<le> k"
proof (induction k arbitrary: n)
  case 0
  then show ?case by simp
next
  case (Suc k)
  show ?case
  proof (cases "n < 10")
    case True
    then show ?thesis by (subst decimal.simps) simp
  next
    case False
    with Suc.prems have k: "0 < k" by (cases k) auto
    from Suc.prems have "n div 10 < 10 ^ k"
      by (simp add: less_mult_imp_div_less mult.commute)
    from Suc.IH [OF this k] False show ?thesis by (subst decimal.simps) simp
  qed
qed

lemma length_printf_d: "length (printf_d (sint (x :: 32 word))) \<le> 11"
proof -
  have lo: "- (2 ^ 31) \<le> sint x" using sint_ge [of x] by simp
  have hi: "sint x < 2 ^ 31" using sint_lt [of x] by simp
  show ?thesis
  proof (cases "sint x < 0")
    case True
    with lo have "nat (- sint x) < 10 ^ 10" by simp
    from length_decimal [OF this] True show ?thesis by (simp add: printf_d_def)
  next
    case False
    with hi have "nat (sint x) < 10 ^ 10" by simp
    from length_decimal [OF this] False show ?thesis by (simp add: printf_d_def)
  qed
qed

text \<open>The buffer \<^verbatim>\<open>uidStr[21]\<close> never truncates.\<close>

lemma snprintf_d_uidStr: "snprintf_d 21 (x :: 32 word) = printf_d (sint x)"
  using length_printf_d [of x] by (simp add: snprintf_d_def)

lemma sint_small:
  assumes "unat (uid :: 32 word) < 2147483648"
  shows "sint uid = int (unat uid)"
proof -
  from assms have "int (unat uid) < 2147483648" by linarith
  then have "uint uid < 2 ^ 31" by (simp only: uint_nat) simp
  moreover have "- (2 ^ 31) \<le> (0 :: int)" by simp
  then have "- (2 ^ 31) \<le> uint uid"
    using uint_ge_0 [of uid] by (rule order_trans)
  ultimately have eq: "signed_take_bit 31 (uint uid) = uint uid"
    by (rule signed_take_bit_int_eq_self [rotated])
  have "sint uid = signed_take_bit 31 (uint uid)" by (simp add: sint_uint)
  also note eq
  also have "uint uid = int (unat uid)" by (rule uint_nat)
  finally show ?thesis .
qed

lemma printf_d_small_uid:
  "unat (uid :: 32 word) < 2147483648 \<Longrightarrow> printf_d (sint uid) = decimal (unat uid)"
  by (simp add: sint_small printf_d_def)

section \<open>Facts about the child and the parent\<close>

text \<open>
  The two ways through the child: when marking a descriptor fails it ends in
  \<^verbatim>\<open>exit(EX_NOPERM)\<close>; otherwise it calls \<^verbatim>\<open>execl\<close> with the path and the uid.
\<close>

lemma child_branch_sanitize_failed:
  "\<not> mark_fds (sys_fcntl w) (STDERR_FILENO + 1)
       (if sys_sysconf_OPEN_MAX w < 0 then OPEN_MAX else sys_sysconf_OPEN_MAX w) \<Longrightarrow>
   snd (child_branch w path uid gid) = ChildExit EX_NOPERM"
  by (simp add: child_branch_def Let_def)

lemma child_branch_sanitized:
  "mark_fds (sys_fcntl w) (STDERR_FILENO + 1)
     (if sys_sysconf_OPEN_MAX w < 0 then OPEN_MAX else sys_sysconf_OPEN_MAX w) \<Longrightarrow>
   child_branch w path uid gid =
     ((if uid \<noteq> 0 \<or> gid \<noteq> 0 then [Setgid gid, Setuid uid] else []) @
        [Execl path [path, printf_d (sint uid)]],
      case sys_execl w path [path, printf_d (sint uid)] of
        ExeclFailed errno \<Rightarrow> ChildExit EX_OSERR
      | ExeclReplaced \<Rightarrow> ChildReplaced path [path, printf_d (sint uid)])"
  by (simp add: child_branch_def Let_def snprintf_d_uidStr split: execl_result.splits)

text \<open>The parent's result once the script is verified, the fork made and the status read.\<close>

lemma ExecuteScript_parent:
  assumes "VerifyScript (sys_lstat w) path = Some True"
    and "sys_fork w = ForkParent childPid"
    and "waited_status w path uid gid = Some childStatus"
  shows "ExecuteScript w path uid gid =
     Some (if \<not> WIFSIGNALED childStatus \<and> WEXITSTATUS childStatus = EX_NOPERM
           then kAuthorizationResultDeny else kAuthorizationResultAllow, [Fork, Waitpid])"
  using assms by (simp add: ExecuteScript_def)

lemma example_world_fields:
  "sys_lstat example_world = example_lstat"
  "sys_fork example_world = ForkParent 100"
  "sys_waitpid example_world = WaitReturned"
  "sys_sysconf_OPEN_MAX example_world = 5"
  "sys_fcntl example_world = (\<lambda>fd. FcntlOk)"
  "sys_execl example_world = (\<lambda>path argv. ExeclReplaced)"
  "sys_script example_world = (\<lambda>path argv. Some (Exited 77))"
  by (simp_all add: example_world_def)

lemma example_child_branch:
  "child_branch example_world ''/opt/hook'' 501 20 =
     ([Setgid 20, Setuid 501, Execl ''/opt/hook'' [''/opt/hook'', ''501'']],
      ChildReplaced ''/opt/hook'' [''/opt/hook'', ''501''])"
  by (simp add: child_branch_def Let_def example_world_fields mark_fds.simps STDERR_FILENO_def
      snprintf_d_def printf_d_def decimal.simps)

section \<open>The exit status of the script\<close>




text \<open>
  C6. For a path that fails verification \<^verbatim>\<open>ExecuteScript\<close> returns Allow, and the
  list of its calls is empty: no child process is forked.
\<close>

theorem ExecuteScript_unverified:
  "VerifyScript (sys_lstat w) path = Some False \<Longrightarrow>
   ExecuteScript w path uid gid = Some (kAuthorizationResultAllow, [])"
  by (simp add: ExecuteScript_def)

text \<open>The example volume with the script made world-writable (mode 0757).\<close>

theorem ExecuteScript_unverified_witness:
  "VerifyScript (sys_lstat (example_world\<lparr>sys_lstat :=
       example_lstat(''/opt/hook'' \<mapsto> file_0755\<lparr>st_mode := 0x81EF\<rparr>)\<rparr>)) ''/opt/hook'' = Some False \<and>
   ExecuteScript (example_world\<lparr>sys_lstat :=
       example_lstat(''/opt/hook'' \<mapsto> file_0755\<lparr>st_mode := 0x81EF\<rparr>)\<rparr>) ''/opt/hook'' 501 20 =
     Some (kAuthorizationResultAllow, [])"
proof -
  let ?w = "example_world\<lparr>sys_lstat := example_lstat(''/opt/hook'' \<mapsto> file_0755\<lparr>st_mode := 0x81EF\<rparr>)\<rparr>"
  have v: "VerifyScript (sys_lstat ?w) ''/opt/hook'' = Some False"
    by (simp add: VerifyScript.simps example_files stat_bits)
  from ExecuteScript_unverified [OF v] v show ?thesis by simp
qed

section \<open>What produces Deny\<close>

text \<open>
  C7, as the specification states it, fails: when marking descriptor 3
  close-on-exec fails with an errno other than \<^verbatim>\<open>EBADF\<close> (here 1), the child calls
  \<^verbatim>\<open>exit(EX_NOPERM)\<close> before any \<^verbatim>\<open>execl\<close>, and the parent returns Deny although
  the script never ran.
\<close>

theorem ExecuteScript_sanitize_failure_counterexample:
  "child_branch (example_world\<lparr>sys_fcntl := \<lambda>fd. if fd = 3 then FcntlFailed 1 else FcntlOk\<rparr>)
     ''/opt/hook'' 501 20 = ([Setgid 20, Setuid 501], ChildExit EX_NOPERM) \<and>
   ExecuteScript (example_world\<lparr>sys_fcntl := \<lambda>fd. if fd = 3 then FcntlFailed 1 else FcntlOk\<rparr>)
     ''/opt/hook'' 501 20 = Some (kAuthorizationResultDeny, [Fork, Waitpid])"
proof -
  let ?w = "example_world\<lparr>sys_fcntl := \<lambda>fd. if fd = 3 then FcntlFailed 1 else FcntlOk\<rparr>"
  have b: "child_branch ?w ''/opt/hook'' 501 20 = ([Setgid 20, Setuid 501], ChildExit EX_NOPERM)"
    by (simp add: child_branch_def Let_def example_world_fields mark_fds.simps STDERR_FILENO_def EBADF_def)
  have "waited_status ?w ''/opt/hook'' 501 20 = Some (wstatus (Exited 77))"
    by (simp add: waited_status_def child_termination_def b example_world_fields EX_NOPERM_def)
  from ExecuteScript_parent [of ?w _ 100, OF _ _ this] b show ?thesis
    by (simp add: example_world_fields example_verified decision_of_wstatus)
qed

text \<open>
  C7, amended: \<^verbatim>\<open>ExecuteScript\<close> returns Deny only for a verified script whose
  child was forked, so a failed verification and a failed \<^verbatim>\<open>fork\<close> never produce
  Deny. When \<^verbatim>\<open>waitpid\<close> collected the child's end, Deny is returned only because
  the child exited with status 77: either marking a descriptor close-on-exec failed
  and the child itself called \<^verbatim>\<open>exit(EX_NOPERM)\<close>, or \<^verbatim>\<open>execl\<close> started the script
  and the script exited with 77; so a failed \<^verbatim>\<open>execl\<close> whose child's end was
  collected does not produce Deny. Nothing is said of the result after a failed
  \<^verbatim>\<open>waitpid\<close>.
\<close>

theorem ExecuteScript_deny_origin:
  assumes "ExecuteScript w path uid gid = Some (kAuthorizationResultDeny, calls)"
  shows "VerifyScript (sys_lstat w) path = Some True \<and>
     (\<exists>childPid. sys_fork w = ForkParent childPid) \<and>
     (sys_waitpid w = WaitReturned \<longrightarrow>
        \<not> mark_fds (sys_fcntl w) (STDERR_FILENO + 1)
            (if sys_sysconf_OPEN_MAX w < 0 then OPEN_MAX else sys_sysconf_OPEN_MAX w) \<or>
        sys_execl w path [path, printf_d (sint uid)] = ExeclReplaced \<and>
        sys_script w path [path, printf_d (sint uid)] = Some (Exited 77))"
proof -
  let ?marked = "mark_fds (sys_fcntl w) (STDERR_FILENO + 1)
      (if sys_sysconf_OPEN_MAX w < 0 then OPEN_MAX else sys_sysconf_OPEN_MAX w)"
  let ?argv = "[path, printf_d (sint uid)]"
  from assms have v: "VerifyScript (sys_lstat w) path = Some True"
    by (auto simp: ExecuteScript_def split: option.splits if_splits)
  with assms obtain childPid where f: "sys_fork w = ForkParent childPid"
    by (cases "sys_fork w") (auto simp: ExecuteScript_def)
  from assms v f obtain childStatus where s: "waited_status w path uid gid = Some childStatus"
    by (cases "waited_status w path uid gid") (auto simp: ExecuteScript_def)
  from assms ExecuteScript_parent [OF v f s]
  have d: "\<not> WIFSIGNALED childStatus \<and> WEXITSTATUS childStatus = EX_NOPERM"
    by (auto split: if_splits)
  have "sys_execl w path ?argv = ExeclReplaced \<and> sys_script w path ?argv = Some (Exited 77)"
    if r: "sys_waitpid w = WaitReturned" and m: ?marked
  proof -
    from s r obtain t where t: "child_termination w path uid gid = Some t" "childStatus = wstatus t"
      by (auto simp: waited_status_def)
    with d have t77: "t = Exited 77" by (simp add: decision_of_wstatus)
    show ?thesis
    proof (cases "sys_execl w path ?argv")
      case (ExeclFailed errno)
      with t(1) t77 show ?thesis
        by (simp add: child_termination_def child_branch_sanitized [OF m] EX_OSERR_def)
    next
      case ExeclReplaced
      with t(1) t77 show ?thesis
        by (simp add: child_termination_def child_branch_sanitized [OF m])
    qed
  qed
  with v f show ?thesis by blast
qed

theorem ExecuteScript_deny_origin_witness:
  "ExecuteScript example_world ''/opt/hook'' 501 20 =
     Some (kAuthorizationResultDeny, [Fork, Waitpid]) \<and>
   sys_waitpid example_world = WaitReturned \<and>
   mark_fds (sys_fcntl example_world) (STDERR_FILENO + 1)
     (if sys_sysconf_OPEN_MAX example_world < 0 then OPEN_MAX
      else sys_sysconf_OPEN_MAX example_world) \<and>
   sys_script example_world ''/opt/hook'' [''/opt/hook'', printf_d (sint (501 :: 32 word))] =
     Some (Exited 77)"
proof -
  have "waited_status example_world ''/opt/hook'' 501 20 = Some (wstatus (Exited 77))"
    by (simp add: waited_status_def child_termination_def example_child_branch
        example_world_fields)
  from ExecuteScript_parent [of example_world _ 100, OF _ _ this]
  have e: "ExecuteScript example_world ''/opt/hook'' 501 20 =
      Some (kAuthorizationResultDeny, [Fork, Waitpid])"
    by (simp add: example_world_fields example_verified decision_of_wstatus)
  have m: "mark_fds (sys_fcntl example_world) (STDERR_FILENO + 1)
     (if sys_sysconf_OPEN_MAX example_world < 0 then OPEN_MAX
      else sys_sysconf_OPEN_MAX example_world)"
    by (simp add: example_world_fields mark_fds.simps STDERR_FILENO_def)
  have r: "sys_waitpid example_world = WaitReturned"
    by (simp add: example_world_fields)
  from ExecuteScript_deny_origin [OF e] r m
  have "sys_script example_world ''/opt/hook'' [''/opt/hook'', printf_d (sint (501 :: 32 word))] =
      Some (Exited 77)"
    by blast
  with e r m show ?thesis by blast
qed

section \<open>A failed wait\<close>

text \<open>
  C8 does not hold of the code. When \<^verbatim>\<open>waitpid\<close> fails (here with errno 4) the
  source logs the failure and goes on to test \<^verbatim>\<open>childStatus\<close>, which nothing has
  written. Where the stack held \<^verbatim>\<open>0x4D00\<close> the macros read a normal exit with
  status 77, and the result is Deny, whatever the script did (here it exits with 0).
\<close>

theorem ExecuteScript_wait_failed_uninitialised:
  "ExecuteScript
     (example_world\<lparr>sys_waitpid := WaitFailed 4, sys_childStatus := 0x4D00,
        sys_script := \<lambda>path argv. Some (Exited 0)\<rparr>) ''/opt/hook'' 501 20 =
     Some (kAuthorizationResultDeny, [Fork, Waitpid])"
proof -
  let ?w = "example_world\<lparr>sys_waitpid := WaitFailed 4, sys_childStatus := 0x4D00,
        sys_script := \<lambda>path argv. Some (Exited 0)\<rparr>"
  have s: "waited_status ?w ''/opt/hook'' 501 20 = Some 0x4D00"
    by (simp add: waited_status_def)
  have "\<not> WIFSIGNALED (0x4D00 :: c_int) \<and> WEXITSTATUS (0x4D00 :: c_int) = EX_NOPERM"
    by (simp add: WIFSIGNALED_def WSTATUS_def WSTOPPED_def WEXITSTATUS_def EX_NOPERM_def)
  with ExecuteScript_parent [of ?w _ 100, OF _ _ s] show ?thesis
    by (simp add: example_world_fields example_verified)
qed

section \<open>The arguments of the script\<close>

text \<open>
  C9, as the specification states it, fails for a uid of \<open>2\<^sup>3\<^sup>1\<close> or more: for the
  uid 3000000000 the script's sole argument is \<^verbatim>\<open>-1294967296\<close>, not the decimal
  form \<^verbatim>\<open>3000000000\<close> of the uid.
\<close>

theorem child_branch_uid_argument_counterexample:
  "snd (child_branch example_world ''/opt/hook'' 3000000000 20) =
     ChildReplaced ''/opt/hook'' [''/opt/hook'', ''-1294967296''] \<and>
   decimal (unat (3000000000 :: uid_t)) = ''3000000000''"
  by (simp add: child_branch_def Let_def example_world_fields mark_fds.simps STDERR_FILENO_def
      snprintf_d_def printf_d_def decimal.simps)

text \<open>
  C9, amended: once the descriptors are marked, the child calls \<^verbatim>\<open>execl\<close> with
  exactly two argument-vector entries, the script path and the decimal form of the
  uid read as a signed 32-bit integer (\<^verbatim>\<open>%d\<close>), which is the decimal form of the uid
  itself for a uid below \<open>2\<^sup>3\<^sup>1\<close>. When \<^verbatim>\<open>execl\<close> succeeds that is the new image; when
  it fails the child exits with status 71, which is not the deny status 77.
\<close>

theorem child_branch_execl:
  assumes "mark_fds (sys_fcntl w) (STDERR_FILENO + 1)
     (if sys_sysconf_OPEN_MAX w < 0 then OPEN_MAX else sys_sysconf_OPEN_MAX w)"
  shows "last (fst (child_branch w path uid gid)) = Execl path [path, printf_d (sint uid)] \<and>
     (unat uid < 2147483648 \<longrightarrow> printf_d (sint uid) = decimal (unat uid)) \<and>
     (sys_execl w path [path, printf_d (sint uid)] = ExeclReplaced \<longrightarrow>
        snd (child_branch w path uid gid) = ChildReplaced path [path, printf_d (sint uid)]) \<and>
     (\<forall>errno. sys_execl w path [path, printf_d (sint uid)] = ExeclFailed errno \<longrightarrow>
        snd (child_branch w path uid gid) = ChildExit EX_OSERR \<and>
        child_termination w path uid gid = Some (Exited 71)) \<and>
     EX_OSERR = 71 \<and> EX_NOPERM = 77"
  by (auto simp add: child_branch_sanitized [OF assms] child_termination_def
      printf_d_small_uid EX_OSERR_def EX_NOPERM_def)

theorem child_branch_execl_witness:
  "mark_fds (sys_fcntl example_world) (STDERR_FILENO + 1)
     (if sys_sysconf_OPEN_MAX example_world < 0 then OPEN_MAX
      else sys_sysconf_OPEN_MAX example_world) \<and>
   snd (child_branch example_world ''/opt/hook'' 501 20) =
     ChildReplaced ''/opt/hook'' [''/opt/hook'', ''501''] \<and>
   child_termination (example_world\<lparr>sys_execl := \<lambda>path argv. ExeclFailed 2\<rparr>)
     ''/opt/hook'' 501 20 = Some (Exited 71)"
proof -
  let ?w = "example_world\<lparr>sys_execl := \<lambda>path argv. ExeclFailed 2\<rparr>"
  have m: "mark_fds (sys_fcntl example_world) (STDERR_FILENO + 1)
     (if sys_sysconf_OPEN_MAX example_world < 0 then OPEN_MAX
      else sys_sysconf_OPEN_MAX example_world)"
    by (simp add: example_world_fields mark_fds.simps STDERR_FILENO_def)
  have m': "mark_fds (sys_fcntl ?w) (STDERR_FILENO + 1)
     (if sys_sysconf_OPEN_MAX ?w < 0 then OPEN_MAX else sys_sysconf_OPEN_MAX ?w)"
    by (simp add: example_world_fields mark_fds.simps STDERR_FILENO_def)
  from child_branch_execl [OF m, of "''/opt/hook''" 501 20]
  have "snd (child_branch example_world ''/opt/hook'' 501 20) =
      ChildReplaced ''/opt/hook'' [''/opt/hook'', ''501'']"
    by (simp add: example_world_fields printf_d_def decimal.simps)
  moreover from child_branch_execl [OF m', of "''/opt/hook''" 501 20]
  have "child_termination ?w ''/opt/hook'' 501 20 = Some (Exited 71)"
    by simp
  ultimately show ?thesis using m by simp
qed

section \<open>Creating a mechanism\<close>

text \<open>
  C4. With a valid plugin, an engine, a place for the result and a successful
  allocation, each of the four mode strings gives an instance with the documented
  context and phase; every other string gives the internal-error status and leaves
  \<^verbatim>\<open>NULL\<close> in the place of the instance, whether or not memory is available.
\<close>

theorem MechanismCreate_modes:
  assumes "PluginValid k (Some plugin)" and "inEngine \<noteq> 0"
  shows "(malloc_succeeds \<longrightarrow>
      MechanismCreate k malloc_succeeds (Some plugin) inEngine (Some ''premount-root'') (Some old) =
        Inr (errAuthorizationSuccess,
             Some \<lparr>fMagic = kMechanismMagic, fEngine = inEngine, fPlugin = Some plugin,
                   fContext = kRunAsRoot, fPhase = kRunBeforeHomedirMount\<rparr>) \<and>
      MechanismCreate k malloc_succeeds (Some plugin) inEngine (Some ''premount-user'') (Some old) =
        Inr (errAuthorizationSuccess,
             Some \<lparr>fMagic = kMechanismMagic, fEngine = inEngine, fPlugin = Some plugin,
                   fContext = kRunAsUser, fPhase = kRunBeforeHomedirMount\<rparr>) \<and>
      MechanismCreate k malloc_succeeds (Some plugin) inEngine (Some ''postmount-root'') (Some old) =
        Inr (errAuthorizationSuccess,
             Some \<lparr>fMagic = kMechanismMagic, fEngine = inEngine, fPlugin = Some plugin,
                   fContext = kRunAsRoot, fPhase = kRunAfterHomedirMount\<rparr>) \<and>
      MechanismCreate k malloc_succeeds (Some plugin) inEngine (Some ''postmount-user'') (Some old) =
        Inr (errAuthorizationSuccess,
             Some \<lparr>fMagic = kMechanismMagic, fEngine = inEngine, fPlugin = Some plugin,
                   fContext = kRunAsUser, fPhase = kRunAfterHomedirMount\<rparr>)) \<and>
    (mid \<notin> {''premount-root'', ''premount-user'', ''postmount-root'', ''postmount-user''} \<longrightarrow>
      MechanismCreate k malloc_succeeds (Some plugin) inEngine (Some mid) (Some old) =
        Inr (errAuthorizationInternal, None)) \<and>
    errAuthorizationInternal \<noteq> errAuthorizationSuccess"
  using assms
  by (simp add: MechanismCreate_def errAuthorizationInternal_def errAuthorizationSuccess_def)

theorem MechanismCreate_modes_witness:
  "PluginValid 1 (Some example_plugin) \<and>
   MechanismCreate 1 True (Some example_plugin) 3 (Some ''postmount-user'') (Some None) =
     Inr (errAuthorizationSuccess, Some example_mechanism) \<and>
   MechanismCreate 1 True (Some example_plugin) 3 (Some ''postmount'') (Some None) =
     Inr (errAuthorizationInternal, None)"
proof -
  have v: "PluginValid 1 (Some example_plugin)"
    by (simp add: PluginValid_def example_plugin_def)
  have e: "(3 :: nat) \<noteq> 0" by simp
  have m: "''postmount'' \<notin> {''premount-root'', ''premount-user'', ''postmount-root'', ''postmount-user''}"
    by simp
  from MechanismCreate_modes [OF v e, of True None "''postmount''"] m
  have "MechanismCreate 1 True (Some example_plugin) 3 (Some ''postmount-user'') (Some None) =
      Inr (errAuthorizationSuccess, Some example_mechanism)"
    and "MechanismCreate 1 True (Some example_plugin) 3 (Some ''postmount'') (Some None) =
      Inr (errAuthorizationInternal, None)"
    by (simp_all add: example_mechanism_def)
  with v show ?thesis by blast
qed

section \<open>Invoking a mechanism\<close>

lemma NOBODY_uid: "(word_of_int NOBODY :: uid_t) = 4294967294"
  by (simp add: NOBODY_def)

text \<open>
  What \<^verbatim>\<open>MechanismInvoke\<close> does for a valid mechanism of the user context when the
  uid or the gid it holds after the lookups is \<^verbatim>\<open>NOBODY\<close>.
\<close>

lemma MechanismInvoke_nobody:
  assumes "MechanismValid (Some m)" and "fContext m = kRunAsUser"
    and "fPlugin m = Some plugin" and "fCallbacks plugin = Some callbacks"
    and "(if fst (host_GetContextValue w ''uid'') \<noteq> errAuthorizationSuccess
          then word_of_int NOBODY else snd (host_GetContextValue w ''uid'')) = word_of_int NOBODY \<or>
         (if fst (host_GetContextValue w ''gid'') \<noteq> errAuthorizationSuccess
          then word_of_int NOBODY else snd (host_GetContextValue w ''gid'')) = word_of_int NOBODY"
  shows "MechanismInvoke w (Some m) =
     Some ([GetContextValue ''uid'', GetContextValue ''gid'', SetResult kAuthorizationResultAllow],
           Inr (AuthorizationResult_value kAuthorizationResultAllow))"
  using assms by (auto simp add: MechanismInvoke_def Let_def)

lemma example_mechanism_valid:
  "MechanismValid (Some example_mechanism)"
  "fContext example_mechanism = kRunAsUser"
  "fPlugin example_mechanism = Some example_plugin"
  "fCallbacks example_plugin = Some \<lparr>version = 1\<rparr>"
  by (simp_all add: MechanismValid_def example_mechanism_def example_plugin_def)

text \<open>
  The whole path once, on the installed plugin: the identity is looked up, the
  script path built, the script verified and run as uid 501; it exits with 77 and
  Deny is reported.
\<close>

lemma MechanismInvoke_script_denies:
  "MechanismInvoke (example_world\<lparr>sys_lstat := install_lstat\<rparr>) (Some example_mechanism) =
     Some ([GetContextValue ''uid'', GetContextValue ''gid'',
            BuildScriptPath ''/Library/Application Support/LoginScriptPlugin/postmount-user'',
            Fork, Waitpid, SetResult kAuthorizationResultDeny], Inr 1)"
proof -
  let ?w = "example_world\<lparr>sys_lstat := install_lstat\<rparr>"
  let ?p = "''/Library/Application Support/LoginScriptPlugin/postmount-user''"
  have v: "VerifyScript install_lstat ?p = Some True"
    by (simp add: VerifyScript.simps install_lstat_def dir_0755_def file_0755_def dirname_def
        stat_bits MAXPATHLEN_def)
  have b: "snd (child_branch ?w ?p 501 20) = ChildReplaced ?p [?p, ''501'']"
    by (simp add: child_branch_def Let_def example_world_fields mark_fds.simps STDERR_FILENO_def
        snprintf_d_def printf_d_def decimal.simps)
  have "waited_status ?w ?p 501 20 = Some (wstatus (Exited 77))"
    by (simp add: waited_status_def child_termination_def b example_world_fields)
  from ExecuteScript_parent [of ?w ?p 100, OF _ _ this]
  have e: "ExecuteScript ?w ?p 501 20 = Some (kAuthorizationResultDeny, [Fork, Waitpid])"
    by (simp add: example_world_fields v decision_of_wstatus)
  have g: "host_GetContextValue ?w =
      (\<lambda>key. (errAuthorizationSuccess, if key = ''uid'' then 501 else 20))"
    by (simp add: example_world_def)
  have path: "snprintf_path MAXPATHLEN kLoginScriptDir ''postmount'' ''user'' = ?p"
    by (simp add: snprintf_path_def MAXPATHLEN_def kLoginScriptDir_def)
  show ?thesis
    by (simp add: MechanismInvoke_def example_mechanism_def g NOBODY_uid Let_def path e
        example_plugin_def MechanismValid_def)
qed

text \<open>
  C5. In the user context, when the lookup of \<^verbatim>\<open>"uid"\<close> or of \<^verbatim>\<open>"gid"\<close> fails,
  \<^verbatim>\<open>MechanismInvoke\<close> makes the two lookups and reports Allow to the host, and
  nothing else: no script path is built and no process is forked. It returns the
  value of Allow.
\<close>

theorem MechanismInvoke_lookup_failure:
  assumes "MechanismValid (Some m)" and "fContext m = kRunAsUser"
    and "fPlugin m = Some plugin" and "fCallbacks plugin = Some callbacks"
    and "fst (host_GetContextValue w ''uid'') \<noteq> errAuthorizationSuccess \<or>
         fst (host_GetContextValue w ''gid'') \<noteq> errAuthorizationSuccess"
  shows "MechanismInvoke w (Some m) =
     Some ([GetContextValue ''uid'', GetContextValue ''gid'', SetResult kAuthorizationResultAllow],
           Inr (AuthorizationResult_value kAuthorizationResultAllow))"
  using assms(5) by (intro MechanismInvoke_nobody [OF assms(1-4)]) auto

text \<open>The host knows the uid but answers the lookup of the gid with an error.\<close>

theorem MechanismInvoke_lookup_failure_witness:
  "MechanismInvoke
     (example_world\<lparr>host_GetContextValue :=
        \<lambda>key. if key = ''uid'' then (errAuthorizationSuccess, 501) else (errAuthorizationInternal, 0)\<rparr>)
     (Some example_mechanism) =
     Some ([GetContextValue ''uid'', GetContextValue ''gid'', SetResult kAuthorizationResultAllow], Inr 0)"
proof -
  let ?w = "example_world\<lparr>host_GetContextValue :=
        \<lambda>key. if key = ''uid'' then (errAuthorizationSuccess, 501) else (errAuthorizationInternal, 0)\<rparr>"
  have "fst (host_GetContextValue ?w ''uid'') \<noteq> errAuthorizationSuccess \<or>
      fst (host_GetContextValue ?w ''gid'') \<noteq> errAuthorizationSuccess"
    by (simp add: errAuthorizationInternal_def errAuthorizationSuccess_def)
  from MechanismInvoke_lookup_failure [OF example_mechanism_valid this]
  show ?thesis by simp
qed

text \<open>
  C10. In the user context, when a lookup succeeds with the value 4294967294 (the
  \<^verbatim>\<open>uid_t\<close> that \<^verbatim>\<open>NOBODY\<close>, -2, converts to) as the uid or as the gid,
  \<^verbatim>\<open>MechanismInvoke\<close> makes the two lookups and reports Allow, and nothing else, and
  its calls and result are those of a world where the lookups fail.
\<close>

theorem MechanismInvoke_nobody_identity:
  assumes "MechanismValid (Some m)" and "fContext m = kRunAsUser"
    and "fPlugin m = Some plugin" and "fCallbacks plugin = Some callbacks"
    and "host_GetContextValue w ''uid'' = (errAuthorizationSuccess, 4294967294) \<or>
         host_GetContextValue w ''gid'' = (errAuthorizationSuccess, 4294967294)"
  shows "MechanismInvoke w (Some m) =
     Some ([GetContextValue ''uid'', GetContextValue ''gid'', SetResult kAuthorizationResultAllow],
           Inr (AuthorizationResult_value kAuthorizationResultAllow)) \<and>
     MechanismInvoke w (Some m) =
       MechanismInvoke (w\<lparr>host_GetContextValue := \<lambda>key. (errAuthorizationInternal, 0)\<rparr>) (Some m)"
proof -
  let ?failing = "w\<lparr>host_GetContextValue := \<lambda>key. (errAuthorizationInternal, 0)\<rparr>"
  from assms(5) have "MechanismInvoke w (Some m) =
     Some ([GetContextValue ''uid'', GetContextValue ''gid'', SetResult kAuthorizationResultAllow],
           Inr (AuthorizationResult_value kAuthorizationResultAllow))"
    by (intro MechanismInvoke_nobody [OF assms(1-4)]) (auto simp add: NOBODY_uid)
  moreover have "MechanismInvoke ?failing (Some m) =
     Some ([GetContextValue ''uid'', GetContextValue ''gid'', SetResult kAuthorizationResultAllow],
           Inr (AuthorizationResult_value kAuthorizationResultAllow))"
    by (intro MechanismInvoke_nobody [OF assms(1-4)])
      (simp add: errAuthorizationInternal_def errAuthorizationSuccess_def)
  ultimately show ?thesis by simp
qed

text \<open>The login of the account whose uid and gid are both 4294967294.\<close>

theorem MechanismInvoke_nobody_identity_witness:
  "MechanismInvoke
     (example_world\<lparr>host_GetContextValue := \<lambda>key. (errAuthorizationSuccess, 4294967294)\<rparr>)
     (Some example_mechanism) =
     Some ([GetContextValue ''uid'', GetContextValue ''gid'', SetResult kAuthorizationResultAllow], Inr 0)"
proof -
  let ?w = "example_world\<lparr>host_GetContextValue := \<lambda>key. (errAuthorizationSuccess, 4294967294)\<rparr>"
  have "host_GetContextValue ?w ''uid'' = (errAuthorizationSuccess, 4294967294) \<or>
      host_GetContextValue ?w ''gid'' = (errAuthorizationSuccess, 4294967294)"
    by simp
  from MechanismInvoke_nobody_identity [OF example_mechanism_valid this]
  show ?thesis by simp
qed

end
